theory Spec2Isabelle
  imports Main
begin

section \<open>Data model\<close>

text \<open>
  The records persisted by \<^verbatim>\<open>SyncManager\<close> (sync-manager.js) and kept in memory by
  \<^verbatim>\<open>TodoApp\<close> (app.js). Times are the milliseconds of \<^verbatim>\<open>Date.now()\<close>. A field
  whose source name is used by two kinds of record, or is a constant of HOL, carries a
  prefix: \<^verbatim>\<open>id\<close> is \<open>task_id\<close> on a task and \<open>item_id\<close> on a queued operation, \<^verbatim>\<open>done\<close> is \<open>task_done\<close>.
  Fields a JavaScript object may lack (\<^verbatim>\<open>updatedAt\<close>, \<^verbatim>\<open>synced\<close>) are options.
\<close>

type_synonym timestamp = nat

record task =
  task_id :: string
  title :: string
  tag :: string
  due :: string
  task_done :: bool
  createdAt :: timestamp
  updatedAt :: "timestamp option"
  synced :: "bool option"

record tag_record =
  tag_name :: string
  tag_createdAt :: timestamp
  tag_synced :: "bool option"

record metadata_entry =
  meta_key :: string
  meta_value :: string
  meta_updatedAt :: timestamp

text \<open>
  The item built by \<^verbatim>\<open>addToSyncQueue\<close>; \<^verbatim>\<open>operation\<close> and \<^verbatim>\<open>entityType\<close> are the
  caller's strings, \<open>item_data\<close> the opaque payload.
\<close>

record sync_item =
  item_id :: string
  operation :: string
  entityType :: string
  item_data :: string
  item_timestamp :: timestamp
  retryCount :: nat
  maxRetries :: nat

text \<open>The four object stores created by \<^verbatim>\<open>initIndexedDB\<close>, each enumerated as a list.\<close>

record database =
  tasks :: "task list"
  tags :: "tag_record list"
  metadata :: "metadata_entry list"
  pendingSync :: "sync_item list"

text \<open>What \<^verbatim>\<open>localStorage\<close> holds under the key \<^verbatim>\<open>todoApp\<close>.\<close>

record legacy_data =
  legacy_tasks :: "task list"
  legacy_tags :: "string list"
  legacy_theme :: string

text \<open>The detail of a \<^verbatim>\<open>syncComplete\<close> event dispatched by \<^verbatim>\<open>notifySyncComplete\<close>.\<close>

record sync_event =
  success :: bool
  error_message :: "string option"
  event_timestamp :: timestamp

text \<open>
  The errors the source throws, and the text of their \<^verbatim>\<open>message\<close>. A
  \<open>StoreError\<close> is the \<^verbatim>\<open>request.error\<close> of a failed IndexedDB request and carries
  its text; \<open>TypeError\<close> is what \<^verbatim>\<open>this.db.transaction\<close> throws when \<^verbatim>\<open>this.db\<close> is
  \<^verbatim>\<open>null\<close>, and its text is the engine's; a \<open>StorageError\<close> is what
  \<^verbatim>\<open>localStorage.setItem\<close> throws, with its text.
\<close>

datatype error =
  NotInitialized
  | StoreError string
  | SimulatedSyncFailure
  | OfflineError
  | InvalidFormat
  | TypeError
  | StorageError string

fun message :: "error \<Rightarrow> string" where
  "message NotInitialized = ''IndexedDB not initialized''"
| "message (StoreError reason) = reason"
| "message SimulatedSyncFailure = ''Simulated sync failure''"
| "message OfflineError = ''Cannot sync while offline''"
| "message InvalidFormat = ''Invalid backup format''"
| "message TypeError = ''Cannot read properties of null''"
| "message (StorageError reason) = reason"

text \<open>
  How an awaited promise ends: resolved with a value, rejected with an error, or never
  settled, in which case the awaiting function never continues.
\<close>

datatype 'a outcome = Resolved 'a | Rejected error | Pending

text \<open>
  The state an operation runs in: the fields of the \<^verbatim>\<open>SyncManager\<close> object
  (\<open>db\<close> is \<^verbatim>\<open>null\<close> until the database has been opened), and the part of the browser
  it acts on. \<open>io\<close> scripts the coming IndexedDB requests, in the order they are issued:
  \<open>None\<close> fires \<^verbatim>\<open>onsuccess\<close>, \<open>Some reason\<close> fires \<^verbatim>\<open>onerror\<close> with that
  \<^verbatim>\<open>request.error\<close>; \<open>net\<close> scripts the coming calls of \<^verbatim>\<open>syncSingleItem\<close>, each
  with the delay it waits and whether it delivers; \<open>storage\<close> scripts the coming
  calls of \<^verbatim>\<open>localStorage.setItem\<close>: \<open>None\<close> returns, \<open>Some reason\<close> throws. A script
  that has run out means success, so every finite run is the run of some script. Operations run one at a time:
  no event handler and no second drain pass interleaves with an operation in progress.
  Console output is not part of the state.
\<close>

record state =
  db :: "database option"
  isOnline :: bool
  lastSyncTime :: "timestamp option"
  stored_lastSyncTime :: "timestamp option"
  stored_todoApp :: "legacy_data option"
  events :: "sync_event list"
  clock :: timestamp
  io :: "string option list"
  net :: "(nat \<times> bool) list"
  storage :: "string option list"

section \<open>Promises\<close>

definition await :: "'a outcome \<times> state \<Rightarrow> ('a \<Rightarrow> state \<Rightarrow> 'b outcome \<times> state) \<Rightarrow> 'b outcome \<times> state" where
  "await m k =
     (case m of
        (Resolved x, s) \<Rightarrow> k x s
      | (Rejected e, s) \<Rightarrow> (Rejected e, s)
      | (Pending, s) \<Rightarrow> (Pending, s))"

definition try_catch :: "'a outcome \<times> state \<Rightarrow> (error \<Rightarrow> state \<Rightarrow> 'a outcome \<times> state) \<Rightarrow> 'a outcome \<times> state" where
  "try_catch m h =
     (case m of
        (Rejected e, s) \<Rightarrow> h e s
      | (Resolved x, s) \<Rightarrow> (Resolved x, s)
      | (Pending, s) \<Rightarrow> (Pending, s))"

section \<open>Object stores\<close>

text \<open>
  A store name of the source stands for an object store with its key path: how to read
  the store in a database, how to replace it, and the key of a record.
\<close>

record 'a object_store =
  contents :: "database \<Rightarrow> 'a list"
  replace :: "'a list \<Rightarrow> database \<Rightarrow> database"
  keyOf :: "'a \<Rightarrow> string"

definition tasksStore :: "task object_store" where
  "tasksStore = \<lparr>contents = tasks, replace = (\<lambda>xs d. d\<lparr>tasks := xs\<rparr>), keyOf = task_id\<rparr>"

definition tagsStore :: "tag_record object_store" where
  "tagsStore = \<lparr>contents = tags, replace = (\<lambda>xs d. d\<lparr>tags := xs\<rparr>), keyOf = tag_name\<rparr>"

definition metadataStore :: "metadata_entry object_store" where
  "metadataStore = \<lparr>contents = metadata, replace = (\<lambda>xs d. d\<lparr>metadata := xs\<rparr>), keyOf = meta_key\<rparr>"

definition pendingSyncStore :: "sync_item object_store" where
  "pendingSyncStore = \<lparr>contents = pendingSync, replace = (\<lambda>xs d. d\<lparr>pendingSync := xs\<rparr>), keyOf = item_id\<rparr>"

text \<open>\<^verbatim>\<open>store.put\<close>: the record replaces the one with its key, or is added.\<close>

fun put :: "('a \<Rightarrow> string) \<Rightarrow> 'a \<Rightarrow> 'a list \<Rightarrow> 'a list" where
  "put k x [] = [x]"
| "put k x (y # ys) = (if k y = k x then x # ys else y # put k x ys)"

text \<open>\<^verbatim>\<open>store.delete\<close>: the record with the key is removed, if there is one.\<close>

definition delete :: "('a \<Rightarrow> string) \<Rightarrow> string \<Rightarrow> 'a list \<Rightarrow> 'a list" where
  "delete k key xs = filter (\<lambda>y. k y \<noteq> key) xs"

text \<open>The next IndexedDB request: its scripted result is taken off \<open>io\<close>.\<close>

definition request :: "state \<Rightarrow> string option \<times> state" where
  "request s = (case io s of [] \<Rightarrow> (None, s) | r # rs \<Rightarrow> (r, s\<lparr>io := rs\<rparr>))"

text \<open>The next call of \<^verbatim>\<open>localStorage.setItem\<close>: its scripted result is taken off \<open>storage\<close>.\<close>

definition setItem :: "state \<Rightarrow> string option \<times> state" where
  "setItem s = (case storage s of [] \<Rightarrow> (None, s) | r # rs \<Rightarrow> (r, s\<lparr>storage := rs\<rparr>))"

text \<open>\<^verbatim>\<open>loadFromIndexedDB(storeName)\<close>, with no key: \<^verbatim>\<open>store.getAll()\<close>.\<close>

definition loadFromIndexedDB :: "'a object_store \<Rightarrow> state \<Rightarrow> 'a list outcome \<times> state" where
  "loadFromIndexedDB store s =
     (case db s of
        None \<Rightarrow> (Rejected NotInitialized, s)
      | Some d \<Rightarrow>
          (case request s of
             (None, s') \<Rightarrow> (Resolved (contents store d), s')
           | (Some reason, s') \<Rightarrow> (Rejected (StoreError reason), s')))"

text \<open>\<^verbatim>\<open>loadFromIndexedDB(storeName, key)\<close>: \<^verbatim>\<open>store.get(key)\<close>, \<open>None\<close> for \<^verbatim>\<open>undefined\<close>.\<close>

definition loadFromIndexedDB_key :: "'a object_store \<Rightarrow> string \<Rightarrow> state \<Rightarrow> 'a option outcome \<times> state" where
  "loadFromIndexedDB_key store key s =
     (case db s of
        None \<Rightarrow> (Rejected NotInitialized, s)
      | Some d \<Rightarrow>
          (case request s of
             (None, s') \<Rightarrow> (Resolved (find (\<lambda>y. keyOf store y = key) (contents store d)), s')
           | (Some reason, s') \<Rightarrow> (Rejected (StoreError reason), s')))"

text \<open>
  \<^verbatim>\<open>saveToIndexedDB(storeName, data)\<close> with a single record: \<^verbatim>\<open>store.put(data)\<close>,
  resolved with the key.
\<close>

definition saveToIndexedDB :: "'a object_store \<Rightarrow> 'a \<Rightarrow> state \<Rightarrow> string outcome \<times> state" where
  "saveToIndexedDB store x s =
     (case db s of
        None \<Rightarrow> (Rejected NotInitialized, s)
      | Some d \<Rightarrow>
          (case request s of
             (None, s') \<Rightarrow>
               (Resolved (keyOf store x),
                s'\<lparr>db := Some (replace store (put (keyOf store) x (contents store d)) d)\<rparr>)
           | (Some reason, s') \<Rightarrow> (Rejected (StoreError reason), s')))"

text \<open>\<^verbatim>\<open>deleteFromIndexedDB(storeName, key)\<close>.\<close>

definition deleteFromIndexedDB :: "'a object_store \<Rightarrow> string \<Rightarrow> state \<Rightarrow> unit outcome \<times> state" where
  "deleteFromIndexedDB store key s =
     (case db s of
        None \<Rightarrow> (Rejected NotInitialized, s)
      | Some d \<Rightarrow>
          (case request s of
             (None, s') \<Rightarrow>
               (Resolved (),
                s'\<lparr>db := Some (replace store (delete (keyOf store) key (contents store d)) d)\<rparr>)
           | (Some reason, s') \<Rightarrow> (Rejected (StoreError reason), s')))"

section \<open>The sync queue\<close>

text \<open>
  \<^verbatim>\<open>syncSingleItem\<close>: waits the scripted delay, then either throws the simulated
  failure or returns.
\<close>

definition syncSingleItem :: "sync_item \<Rightarrow> state \<Rightarrow> unit outcome \<times> state" where
  "syncSingleItem item s =
     (case net s of
        [] \<Rightarrow> (Resolved (), s)
      | (delay, delivered) # rest \<Rightarrow>
          (if delivered then Resolved () else Rejected SimulatedSyncFailure,
           s\<lparr>clock := clock s + delay, net := rest\<rparr>))"

text \<open>\<^verbatim>\<open>handleSyncFailure\<close>: the retry policy.\<close>

definition handleSyncFailure :: "sync_item \<Rightarrow> state \<Rightarrow> unit outcome \<times> state" where
  "handleSyncFailure item s =
     (let item' = item\<lparr>retryCount := retryCount item + 1\<rparr> in
      if retryCount item' \<ge> maxRetries item'
      then deleteFromIndexedDB pendingSyncStore (item_id item') s
      else await (saveToIndexedDB pendingSyncStore item' s) (\<lambda>_ s'. (Resolved (), s')))"

text \<open>
  \<^verbatim>\<open>updateLastSyncTime\<close>: the field is assigned first, then
  \<^verbatim>\<open>localStorage.setItem\<close> is called; when it throws, the field keeps the new time,
  \<^verbatim>\<open>localStorage\<close> keeps the old one, and the error leaves the function.
\<close>

definition updateLastSyncTime :: "state \<Rightarrow> unit outcome \<times> state" where
  "updateLastSyncTime s =
     (let s1 = s\<lparr>lastSyncTime := Some (clock s)\<rparr> in
      case setItem s1 of
        (None, s2) \<Rightarrow> (Resolved (), s2\<lparr>stored_lastSyncTime := Some (clock s)\<rparr>)
      | (Some reason, s2) \<Rightarrow> (Rejected (StorageError reason), s2))"

text \<open>\<^verbatim>\<open>notifySyncComplete\<close>.\<close>

definition notifySyncComplete :: "bool \<Rightarrow> string option \<Rightarrow> state \<Rightarrow> state" where
  "notifySyncComplete ok err s =
     s\<lparr>events := events s @ [\<lparr>success = ok, error_message = err, event_timestamp = clock s\<rparr>]\<rparr>"

text \<open>
  The body of the loop of \<^verbatim>\<open>processSyncQueue\<close> for one item: the inner
  \<^verbatim>\<open>try\<close> delivers the item and deletes it, the inner \<^verbatim>\<open>catch\<close> runs the retry
  policy.
\<close>

definition processItem :: "sync_item \<Rightarrow> state \<Rightarrow> unit outcome \<times> state" where
  "processItem item s =
     try_catch
       (await (syncSingleItem item s) (\<lambda>_ s1. deleteFromIndexedDB pendingSyncStore (item_id item) s1))
       (\<lambda>e s1. handleSyncFailure item s1)"

text \<open>The \<^verbatim>\<open>for ... of\<close> loop: an error that leaves the body ends the loop.\<close>

fun processItems :: "sync_item list \<Rightarrow> state \<Rightarrow> unit outcome \<times> state" where
  "processItems [] s = (Resolved (), s)"
| "processItems (item # rest) s = await (processItem item s) (\<lambda>_ s'. processItems rest s')"

text \<open>
  \<^verbatim>\<open>processSyncQueue\<close>: one drain pass. The outer \<^verbatim>\<open>try\<close> holds the read, the loop,
  \<^verbatim>\<open>updateLastSyncTime\<close> and the notification of success; the outer \<^verbatim>\<open>catch\<close>
  notifies the failure.
\<close>

definition processSyncQueue :: "state \<Rightarrow> unit outcome \<times> state" where
  "processSyncQueue s =
     (if \<not> isOnline s then (Resolved (), s)
      else
        try_catch
          (await (loadFromIndexedDB pendingSyncStore s) (\<lambda>pendingItems s1.
             if pendingItems = [] then (Resolved (), s1)
             else
               await (processItems pendingItems s1) (\<lambda>_ s2.
               await (updateLastSyncTime s2) (\<lambda>_ s3.
                 (Resolved (), notifySyncComplete True None s3)))))
          (\<lambda>e s'. (Resolved (), notifySyncComplete False (Some (message e)) s')))"

text \<open>\<^verbatim>\<open>forceSyncNow\<close>.\<close>

definition forceSyncNow :: "state \<Rightarrow> unit outcome \<times> state" where
  "forceSyncNow s =
     (if \<not> isOnline s then (Rejected OfflineError, s)
      else await (processSyncQueue s) (\<lambda>_ s'. (Resolved (), s')))"


text \<open>\<^verbatim>\<open>getSyncStatus\<close> and the snapshot it returns.\<close>

record sync_status =
  hasPendingSync :: bool
  pendingCount :: nat
  status_lastSyncTime :: "timestamp option"
  status_isOnline :: bool

definition getSyncStatus :: "state \<Rightarrow> sync_status outcome \<times> state" where
  "getSyncStatus s =
     try_catch
       (await (loadFromIndexedDB pendingSyncStore s) (\<lambda>pendingItems s1.
          (Resolved \<lparr>hasPendingSync = length pendingItems > 0,
                     pendingCount = length pendingItems,
                     status_lastSyncTime = lastSyncTime s1,
                     status_isOnline = isOnline s1\<rparr>, s1)))
       (\<lambda>e s'.
          (Resolved \<lparr>hasPendingSync = False, pendingCount = 0,
                     status_lastSyncTime = None, status_isOnline = isOnline s'\<rparr>, s'))"

section \<open>Backup and restore\<close>

text \<open>
  A snapshot as \<^verbatim>\<open>restoreFromBackup\<close> receives it: any of its parts may be missing
  (\<^verbatim>\<open>{}\<close> has none).
\<close>

record backup_data =
  backup_tasks :: "task list option"
  backup_tags :: "tag_record list option"
  backup_metadata :: "metadata_entry list option"

record backup =
  version :: "string option"
  backup_timestamp :: "timestamp option"
  data :: "backup_data option"

text \<open>
  \<^verbatim>\<open>saveToIndexedDB(storeName, data)\<close> with an array. \<^verbatim>\<open>bulkSave\<close> issues one
  \<^verbatim>\<open>put\<close> for each record; a put whose request fails leaves the store as it was.
  What \<^verbatim>\<open>bulkSave\<close> returns is a promise, not a request: the \<^verbatim>\<open>onsuccess\<close> and
  \<^verbatim>\<open>onerror\<close> handlers that \<^verbatim>\<open>saveToIndexedDB\<close> sets on it are never called, so the
  promise \<^verbatim>\<open>saveToIndexedDB\<close> returns is never settled.
\<close>

fun bulkSave :: "'a object_store \<Rightarrow> 'a list \<Rightarrow> state \<Rightarrow> state" where
  "bulkSave store [] s = s"
| "bulkSave store (x # xs) s = bulkSave store xs (snd (saveToIndexedDB store x s))"

definition saveToIndexedDB_array :: "'a object_store \<Rightarrow> 'a list \<Rightarrow> state \<Rightarrow> unit outcome \<times> state" where
  "saveToIndexedDB_array store xs s =
     (case db s of
        None \<Rightarrow> (Rejected NotInitialized, s)
      | Some d \<Rightarrow> (Pending, bulkSave store xs s))"

text \<open>
  \<^verbatim>\<open>clearAllData\<close>: the four stores are cleared in turn; \<^verbatim>\<open>this.db.transaction\<close> on
  a database that was never opened is a \<^verbatim>\<open>TypeError\<close>. The \<^verbatim>\<open>catch\<close> logs and
  throws the error again.
\<close>

definition clearStore :: "'a object_store \<Rightarrow> state \<Rightarrow> unit outcome \<times> state" where
  "clearStore store s =
     (case db s of
        None \<Rightarrow> (Rejected TypeError, s)
      | Some d \<Rightarrow>
          (case request s of
             (None, s') \<Rightarrow> (Resolved (), s'\<lparr>db := Some (replace store [] d)\<rparr>)
           | (Some reason, s') \<Rightarrow> (Rejected (StoreError reason), s')))"

definition clearAllData :: "state \<Rightarrow> unit outcome \<times> state" where
  "clearAllData s =
     await (clearStore tasksStore s) (\<lambda>_ s1.
     await (clearStore tagsStore s1) (\<lambda>_ s2.
     await (clearStore metadataStore s2) (\<lambda>_ s3.
     clearStore pendingSyncStore s3)))"

text \<open>\<^verbatim>\<open>syncIndexedDBToLocalStorage\<close>: its \<^verbatim>\<open>catch\<close> logs the error and returns.\<close>

definition syncIndexedDBToLocalStorage :: "state \<Rightarrow> unit outcome \<times> state" where
  "syncIndexedDBToLocalStorage s =
     try_catch
       (await (loadFromIndexedDB tasksStore s) (\<lambda>ts s1.
        await (loadFromIndexedDB tagsStore s1) (\<lambda>gs s2.
        await (loadFromIndexedDB_key metadataStore ''theme'' s2) (\<lambda>themeData s3.
          (case setItem s3 of
             (None, s4) \<Rightarrow>
               (Resolved (),
                s4\<lparr>stored_todoApp := Some
                     \<lparr>legacy_tasks = ts,
                      legacy_tags = map tag_name gs,
                      legacy_theme = (case themeData of Some m \<Rightarrow> meta_value m | None \<Rightarrow> ''light'')\<rparr>\<rparr>)
           | (Some reason, s4) \<Rightarrow> (Rejected (StorageError reason), s4))))))
       (\<lambda>e s'. (Resolved (), s'))"

text \<open>\<^verbatim>\<open>createBackup\<close>: its \<^verbatim>\<open>catch\<close> logs and throws the error again.\<close>

definition createBackup :: "state \<Rightarrow> backup outcome \<times> state" where
  "createBackup s =
     await (loadFromIndexedDB tasksStore s) (\<lambda>ts s1.
     await (loadFromIndexedDB tagsStore s1) (\<lambda>gs s2.
     await (loadFromIndexedDB metadataStore s2) (\<lambda>ms s3.
       (Resolved \<lparr>version = Some ''1.0.0'',
                  backup_timestamp = Some (clock s3),
                  data = Some \<lparr>backup_tasks = Some ts, backup_tags = Some gs,
                               backup_metadata = Some ms\<rparr>\<rparr>, s3))))"

text \<open>
  One of the three steps \<^verbatim>\<open>if (backup.data.X && backup.data.X.length > 0) await
  this.saveToIndexedDB(X, backup.data.X)\<close> of \<^verbatim>\<open>restoreFromBackup\<close>.
\<close>

definition restoreSection :: "'a object_store \<Rightarrow> 'a list option \<Rightarrow> state \<Rightarrow> unit outcome \<times> state" where
  "restoreSection store sec s =
     (case sec of
        Some (x # xs) \<Rightarrow> saveToIndexedDB_array store (x # xs) s
      | _ \<Rightarrow> (Resolved (), s))"

text \<open>\<^verbatim>\<open>restoreFromBackup\<close>: its \<^verbatim>\<open>catch\<close> logs and throws the error again.\<close>

definition restoreFromBackup :: "backup \<Rightarrow> state \<Rightarrow> bool outcome \<times> state" where
  "restoreFromBackup b s =
     (case data b of
        None \<Rightarrow> (Rejected InvalidFormat, s)
      | Some d \<Rightarrow>
          await (clearAllData s) (\<lambda>_ s1.
          await (restoreSection tasksStore (backup_tasks d) s1) (\<lambda>_ s2.
          await (restoreSection tagsStore (backup_tags d) s2) (\<lambda>_ s3.
          await (restoreSection metadataStore (backup_metadata d) s3) (\<lambda>_ s4.
          await (syncIndexedDBToLocalStorage s4) (\<lambda>_ s5.
            (Resolved True, s5)))))))"

section \<open>Tags of the application\<close>

text \<open>
  The fields of \<^verbatim>\<open>TodoApp\<close> (app.js) that \<^verbatim>\<open>removeTag\<close> touches, what
  \<^verbatim>\<open>localStorage\<close> holds under \<^verbatim>\<open>todoApp\<close>, whether \<^verbatim>\<open>localStorage.setItem\<close>
  succeeds, and the types of the toasts shown (their text is left out). The rendering
  that \<^verbatim>\<open>removeTag\<close> calls (\<^verbatim>\<open>initializeSelects\<close>, \<^verbatim>\<open>renderTasks\<close>) reads the tasks
  and tags and writes only the page.
\<close>

record todo_app =
  app_tasks :: "task list"
  app_tags :: "string list"
  currentTheme :: string
  app_storage :: "legacy_data option"
  setItem_succeeds :: bool
  toasts :: "string list"

definition showToast :: "string \<Rightarrow> todo_app \<Rightarrow> todo_app" where
  "showToast type a = a\<lparr>toasts := toasts a @ [type]\<rparr>"

definition saveState :: "todo_app \<Rightarrow> todo_app" where
  "saveState a =
     (if setItem_succeeds a
      then a\<lparr>app_storage := Some \<lparr>legacy_tasks = app_tasks a, legacy_tags = app_tags a,
                                   legacy_theme = currentTheme a\<rparr>\<rparr>
      else showToast ''error'' a)"

definition removeTag :: "string \<Rightarrow> todo_app \<Rightarrow> todo_app" where
  "removeTag tagName a =
     (let a1 = a\<lparr>app_tags := filter (\<lambda>t. t \<noteq> tagName) (app_tags a)\<rparr>;
          a2 = a1\<lparr>app_tasks := map (\<lambda>t. if tag t = tagName then t\<lparr>tag := ''''\<rparr> else t) (app_tasks a1)\<rparr>
      in showToast ''success'' (saveState a2))"

section \<open>The bound on the retry counters\<close>


section \<open>Example values\<close>

text \<open>
  Two queued operations (a fresh one, and one that has failed twice), a task, a tag, and a
  state that is online with both operations queued; the first delivery of its script
  succeeds, the second fails.
\<close>

definition item_a :: sync_item where
  "item_a = \<lparr>item_id = ''sync_a'', operation = ''create'', entityType = ''task'', item_data = ''{}'',
             item_timestamp = 10, retryCount = 0, maxRetries = 3\<rparr>"

definition item_b :: sync_item where
  "item_b = \<lparr>item_id = ''sync_b'', operation = ''update'', entityType = ''task'', item_data = ''{}'',
             item_timestamp = 20, retryCount = 2, maxRetries = 3\<rparr>"

definition task_a :: task where
  "task_a = \<lparr>task_id = ''t1'', title = ''milk'', tag = ''home'', due = [], task_done = False,
             createdAt = 5, updatedAt = None, synced = None\<rparr>"

definition tag_a :: tag_record where
  "tag_a = \<lparr>tag_name = ''home'', tag_createdAt = 3, tag_synced = None\<rparr>"

definition example_db :: database where
  "example_db = \<lparr>tasks = [task_a], tags = [tag_a], metadata = [], pendingSync = [item_a, item_b]\<rparr>"

definition example_state :: state where
  "example_state = \<lparr>db = Some example_db, isOnline = True, lastSyncTime = None,
     stored_lastSyncTime = None, stored_todoApp = None, events = [], clock = 1000,
     io = [], net = [(500, True), (700, False)], storage = []\<rparr>"

text \<open>The same state with an empty queue, and an application with two tags in use.\<close>

definition idle_state :: state where
  "idle_state = example_state\<lparr>db := Some (example_db\<lparr>pendingSync := []\<rparr>)\<rparr>"

definition task_b :: task where
  "task_b = \<lparr>task_id = ''t2'', title = ''report'', tag = ''work'', due = ''2025-01-31'',
             task_done = True, createdAt = 7, updatedAt = None, synced = None\<rparr>"

definition example_app :: todo_app where
  "example_app = \<lparr>app_tasks = [task_a, task_b], app_tags = [''home'', ''work''],
     currentTheme = ''light'', app_storage = None, setItem_succeeds = True, toasts = []\<rparr>"

text \<open>
  A state in which the delivery of the first queued operation fails and the request the
  retry policy then issues fails as well.
\<close>

definition failing_state :: state where
  "failing_state = example_state\<lparr>io := [None, Some ''QuotaExceededError''],
     net := [(500, False), (700, True)]\<rparr>"


text \<open>The snapshot of \<open>example_state\<close>.\<close>

definition example_backup :: backup where
  "example_backup = \<lparr>version = Some ''1.0.0'', backup_timestamp = Some 1000,
     data = Some \<lparr>backup_tasks = Some [task_a], backup_tags = Some [tag_a],
                  backup_metadata = Some []\<rparr>\<rparr>"

section \<open>Basic facts\<close>

lemma await_simps [simp]:
  "await (Resolved x, s) k = k x s"
  "await (Rejected e, s) k = (Rejected e, s)"
  "await (Pending, s) k = (Pending, s)"
  by (simp_all add: await_def)

lemma try_catch_simps [simp]:
  "try_catch (Resolved x, s) h = (Resolved x, s)"
  "try_catch (Rejected e, s) h = h e s"
  "try_catch (Pending, s) h = (Pending, s)"
  by (simp_all add: try_catch_def)

lemma request_eq:
  "request s = ((case io s of [] \<Rightarrow> None | r # _ \<Rightarrow> r), s\<lparr>io := tl (io s)\<rparr>)"
  by (cases "io s") (simp_all add: request_def)

lemma deleteFromIndexedDB_eq:
  "db s = Some d \<Longrightarrow>
   deleteFromIndexedDB store key s =
     (case fst (request s) of
        None \<Rightarrow> (Resolved (), s\<lparr>io := tl (io s),
                     db := Some (replace store (delete (keyOf store) key (contents store d)) d)\<rparr>)
      | Some reason \<Rightarrow> (Rejected (StoreError reason), s\<lparr>io := tl (io s)\<rparr>))"
  by (simp add: deleteFromIndexedDB_def request_eq split: option.splits list.splits)

lemma saveToIndexedDB_eq:
  "db s = Some d \<Longrightarrow>
   saveToIndexedDB store x s =
     (case fst (request s) of
        None \<Rightarrow> (Resolved (keyOf store x), s\<lparr>io := tl (io s),
                     db := Some (replace store (put (keyOf store) x (contents store d)) d)\<rparr>)
      | Some reason \<Rightarrow> (Rejected (StoreError reason), s\<lparr>io := tl (io s)\<rparr>))"
  by (simp add: saveToIndexedDB_def request_eq split: option.splits list.splits)

lemma handleSyncFailure_eq:
  "db s = Some d \<Longrightarrow>
   handleSyncFailure item s =
     (case fst (request s) of
        None \<Rightarrow>
          (Resolved (),
           s\<lparr>io := tl (io s),
             db := Some (d\<lparr>pendingSync :=
               (if maxRetries item \<le> retryCount item + 1
                then delete item_id (item_id item) (pendingSync d)
                else put item_id (item\<lparr>retryCount := retryCount item + 1\<rparr>) (pendingSync d))\<rparr>)\<rparr>)
      | Some reason \<Rightarrow> (Rejected (StoreError reason), s\<lparr>io := tl (io s)\<rparr>))"
  by (simp add: handleSyncFailure_def Let_def deleteFromIndexedDB_eq saveToIndexedDB_eq
      pendingSyncStore_def split: option.splits)

lemma syncSingleItem_frame:
  "syncSingleItem item s = (r, s1) \<Longrightarrow>
     db s1 = db s \<and> io s1 = io s \<and> events s1 = events s \<and> isOnline s1 = isOnline s \<and>
     lastSyncTime s1 = lastSyncTime s \<and> stored_lastSyncTime s1 = stored_lastSyncTime s \<and>
     stored_todoApp s1 = stored_todoApp s \<and> storage s1 = storage s \<and> r \<noteq> Pending"
  by (auto simp: syncSingleItem_def split: list.splits if_splits)

lemma processItem_delivered:
  "syncSingleItem item s = (Resolved u, s1) \<Longrightarrow>
   processItem item s =
     try_catch (deleteFromIndexedDB pendingSyncStore (item_id item) s1) (\<lambda>e. handleSyncFailure item)"
  by (simp add: processItem_def)

lemma processItem_failed:
  "syncSingleItem item s = (Rejected e, s1) \<Longrightarrow> processItem item s = handleSyncFailure item s1"
  by (simp add: processItem_def)

lemma request_fst_take:
  "set (take (Suc n) (io s)) \<subseteq> {None} \<Longrightarrow> fst (request s) = None"
  by (cases "io s") (simp_all add: request_def)

lemma take_tl_subset:
  "set (take (Suc n) xs) \<subseteq> A \<Longrightarrow> set (take n (tl xs)) \<subseteq> A"
  by (cases xs) simp_all

lemma processItem_step:
  assumes "db s = Some d" and "fst (request s) = None"
  shows "fst (processItem item s) = Resolved () \<and>
         io (snd (processItem item s)) = tl (io s) \<and>
         db (snd (processItem item s)) \<noteq> None \<and>
         events (snd (processItem item s)) = events s \<and>
         isOnline (snd (processItem item s)) = isOnline s \<and>
         lastSyncTime (snd (processItem item s)) = lastSyncTime s \<and>
         storage (snd (processItem item s)) = storage s"
proof (cases "syncSingleItem item s")
  case (Pair r s1)
  note fr = syncSingleItem_frame [OF Pair]
  from fr assms have d1: "db s1 = Some d" and r1: "fst (request s1) = None"
    by (simp_all add: request_eq)
  show ?thesis
  proof (cases r)
    case (Resolved u)
    with Pair d1 r1 fr show ?thesis
      by (simp add: processItem_delivered deleteFromIndexedDB_eq)
  next
    case (Rejected e)
    with Pair d1 r1 fr show ?thesis
      by (simp add: processItem_failed handleSyncFailure_eq)
  next
    case Pending
    with fr show ?thesis by simp
  qed
qed

lemma processItems_fold:
  "db s \<noteq> None \<Longrightarrow> set (take (length items) (io s)) \<subseteq> {None} \<Longrightarrow>
   processItems items s = (Resolved (), foldl (\<lambda>t item. snd (processItem item t)) s items)"
proof (induction items arbitrary: s)
  case Nil
  show ?case by simp
next
  case (Cons item rest)
  from Cons.prems obtain d where d: "db s = Some d" by auto
  from Cons.prems have r: "fst (request s) = None"
    by (intro request_fst_take [of "length rest"]) simp
  note st = processItem_step [OF d r, of item]
  obtain s' where s': "processItem item s = (Resolved (), s')"
    using st by (cases "processItem item s") auto
  from st s' have "db s' \<noteq> None" and "io s' = tl (io s)" by simp_all
  moreover from Cons.prems have "set (take (length rest) (tl (io s))) \<subseteq> {None}"
    by (intro take_tl_subset) simp
  ultimately have "processItems rest s' = (Resolved (), foldl (\<lambda>t item. snd (processItem item t)) s' rest)"
    using Cons.IH [of s'] by simp
  with s' show ?case by simp
qed

lemma processItems_frame:
  "db s \<noteq> None \<Longrightarrow> set (take (length items) (io s)) \<subseteq> {None} \<Longrightarrow>
   events (foldl (\<lambda>t item. snd (processItem item t)) s items) = events s \<and>
   storage (foldl (\<lambda>t item. snd (processItem item t)) s items) = storage s"
proof (induction items arbitrary: s)
  case Nil
  show ?case by simp
next
  case (Cons item rest)
  from Cons.prems obtain d where d: "db s = Some d" by auto
  from Cons.prems have r: "fst (request s) = None"
    by (intro request_fst_take [of "length rest"]) simp
  note st = processItem_step [OF d r, of item]
  from Cons.prems have "set (take (length rest) (tl (io s))) \<subseteq> {None}"
    by (intro take_tl_subset) simp
  with st have "events (foldl (\<lambda>t item. snd (processItem item t)) (snd (processItem item s)) rest)
      = events (snd (processItem item s)) \<and>
    storage (foldl (\<lambda>t item. snd (processItem item t)) (snd (processItem item s)) rest)
      = storage (snd (processItem item s))"
    by (intro Cons.IH) simp_all
  with st show ?case by simp
qed

lemma loadFromIndexedDB_frame:
  "loadFromIndexedDB store s = (r, s') \<Longrightarrow>
     db s' = db s \<and> isOnline s' = isOnline s \<and> lastSyncTime s' = lastSyncTime s \<and>
     stored_lastSyncTime s' = stored_lastSyncTime s \<and> stored_todoApp s' = stored_todoApp s \<and>
     events s' = events s \<and> clock s' = clock s \<and> net s' = net s \<and>
     storage s' = storage s \<and> r \<noteq> Pending"
  by (auto simp: loadFromIndexedDB_def request_def split: option.splits list.splits)

lemma store_ops_not_Pending:
  "fst (deleteFromIndexedDB store key s) \<noteq> Pending"
  "fst (saveToIndexedDB store x s) \<noteq> Pending"
  by (simp_all add: deleteFromIndexedDB_def saveToIndexedDB_def request_eq split: option.splits)

lemma handleSyncFailure_not_Pending: "fst (handleSyncFailure item s) \<noteq> Pending"
  by (simp add: handleSyncFailure_def Let_def deleteFromIndexedDB_def saveToIndexedDB_def
      request_eq split: option.splits)

lemma processItem_not_Pending: "fst (processItem item s) \<noteq> Pending"
proof (cases "syncSingleItem item s")
  case (Pair r s1)
  show ?thesis
  proof (cases r)
    case (Resolved u)
    obtain r2 s2 where del: "deleteFromIndexedDB pendingSyncStore (item_id item) s1 = (r2, s2)"
      by (cases "deleteFromIndexedDB pendingSyncStore (item_id item) s1")
    with store_ops_not_Pending(1) [of pendingSyncStore "item_id item" s1] have "r2 \<noteq> Pending" by simp
    with Pair Resolved del show ?thesis
      by (cases r2) (simp_all add: processItem_def handleSyncFailure_not_Pending)
  next
    case (Rejected e)
    with Pair show ?thesis by (simp add: processItem_def handleSyncFailure_not_Pending)
  next
    case Pending
    with syncSingleItem_frame [OF Pair] show ?thesis by simp
  qed
qed

lemma processItems_not_Pending: "fst (processItems items s) \<noteq> Pending"
proof (induction items arbitrary: s)
  case Nil
  show ?case by simp
next
  case (Cons item rest)
  obtain r s' where p: "processItem item s = (r, s')" by (cases "processItem item s")
  with processItem_not_Pending [of item s] have "r \<noteq> Pending" by simp
  with p Cons.IH [of s'] show ?case by (cases r) simp_all
qed

lemma setItem_eq:
  "setItem s = ((case storage s of [] \<Rightarrow> None | r # _ \<Rightarrow> r), s\<lparr>storage := tl (storage s)\<rparr>)"
  by (cases "storage s") (simp_all add: setItem_def)

lemma updateLastSyncTime_eq:
  "updateLastSyncTime s =
     (case fst (setItem s) of
        None \<Rightarrow>
          (Resolved (),
           s\<lparr>lastSyncTime := Some (clock s), storage := tl (storage s),
             stored_lastSyncTime := Some (clock s)\<rparr>)
      | Some reason \<Rightarrow>
          (Rejected (StorageError reason),
           s\<lparr>lastSyncTime := Some (clock s), storage := tl (storage s)\<rparr>))"
  by (simp add: updateLastSyncTime_def Let_def setItem_eq split: option.splits)

lemma updateLastSyncTime_frame:
  "updateLastSyncTime s = (r, s') \<Longrightarrow>
     db s' = db s \<and> events s' = events s \<and> clock s' = clock s \<and> r \<noteq> Pending"
  by (auto simp: updateLastSyncTime_eq split: option.splits)

lemma processSyncQueue_resolves: "fst (processSyncQueue s) = Resolved ()"
proof (cases "isOnline s")
  case False
  then show ?thesis by (simp add: processSyncQueue_def)
next
  case True
  obtain r s1 where ld: "loadFromIndexedDB pendingSyncStore s = (r, s1)"
    by (cases "loadFromIndexedDB pendingSyncStore s")
  show ?thesis
  proof (cases r)
    case (Resolved pendingItems)
    obtain r2 s2 where pi: "processItems pendingItems s1 = (r2, s2)"
      by (cases "processItems pendingItems s1")
    with processItems_not_Pending [of pendingItems s1] have "r2 \<noteq> Pending" by simp
    moreover obtain r3 s3 where up: "updateLastSyncTime s2 = (r3, s3)"
      by (cases "updateLastSyncTime s2")
    moreover from updateLastSyncTime_frame [OF up] have "r3 \<noteq> Pending" by simp
    ultimately show ?thesis
      using True ld Resolved pi by (cases r2; cases r3) (simp_all add: processSyncQueue_def)
  next
    case (Rejected e)
    with True ld show ?thesis by (simp add: processSyncQueue_def)
  next
    case Pending
    with loadFromIndexedDB_frame [OF ld] show ?thesis by simp
  qed
qed

lemma idle_state_load:
  "loadFromIndexedDB pendingSyncStore idle_state = (Resolved [], idle_state)"
  by (simp add: loadFromIndexedDB_def request_def idle_state_def example_state_def
      pendingSyncStore_def)

























section \<open>Draining while offline\<close>

text \<open>
  C6. A drain pass started while the manager is offline returns at once and changes
  nothing: the queue, the scripts of coming requests and deliveries (none is issued),
  the dispatched events and the last sync time are those of the state before.
\<close>

theorem processSyncQueue_offline:
  "\<not> isOnline s \<Longrightarrow> processSyncQueue s = (Resolved (), s)"
  by (simp add: processSyncQueue_def)

theorem processSyncQueue_offline_witness:
  "\<not> isOnline (example_state\<lparr>isOnline := False\<rparr>) \<and>
   processSyncQueue (example_state\<lparr>isOnline := False\<rparr>) = (Resolved (), example_state\<lparr>isOnline := False\<rparr>)"
  using processSyncQueue_offline [of "example_state\<lparr>isOnline := False\<rparr>"] by simp

section \<open>A drain pass whose read of the queue fails\<close>

text \<open>
  C7. When the manager is online and the read of the queue is rejected (the database was
  never opened, or the request fires \<^verbatim>\<open>onerror\<close>), the pass ends there: no delivery is
  attempted and no entry is touched, \<^verbatim>\<open>lastSyncTime\<close> stays as it was in memory and in
  \<^verbatim>\<open>localStorage\<close>, and exactly one event is dispatched, with \<^verbatim>\<open>success = false\<close>
  and the message of the error.
\<close>

theorem processSyncQueue_read_fails:
  assumes "isOnline s" and "loadFromIndexedDB pendingSyncStore s = (Rejected e, s')"
  shows "processSyncQueue s =
           (Resolved (), s'\<lparr>events := events s @
              [\<lparr>success = False, error_message = Some (message e), event_timestamp = clock s\<rparr>]\<rparr>) \<and>
         db s' = db s \<and> net s' = net s \<and> clock s' = clock s \<and>
         lastSyncTime s' = lastSyncTime s \<and> stored_lastSyncTime s' = stored_lastSyncTime s"
  using assms loadFromIndexedDB_frame [OF assms(2)]
  by (simp add: processSyncQueue_def notifySyncComplete_def)

theorem processSyncQueue_read_fails_witness:
  "processSyncQueue (example_state\<lparr>io := [Some ''UnknownError'']\<rparr>) =
     (Resolved (), example_state\<lparr>events :=
        [\<lparr>success = False, error_message = Some ''UnknownError'', event_timestamp = 1000\<rparr>]\<rparr>) \<and>
   processSyncQueue (example_state\<lparr>db := None\<rparr>) =
     (Resolved (), example_state\<lparr>db := None, events :=
        [\<lparr>success = False, error_message = Some ''IndexedDB not initialized'', event_timestamp = 1000\<rparr>]\<rparr>)"
proof -
  have on: "isOnline (example_state\<lparr>io := [Some ''UnknownError'']\<rparr>)" "isOnline (example_state\<lparr>db := None\<rparr>)"
    by (simp_all add: example_state_def)
  have l1: "loadFromIndexedDB pendingSyncStore (example_state\<lparr>io := [Some ''UnknownError'']\<rparr>) =
      (Rejected (StoreError ''UnknownError''), example_state)"
    by (simp add: loadFromIndexedDB_def request_def example_state_def)
  have l2: "loadFromIndexedDB pendingSyncStore (example_state\<lparr>db := None\<rparr>) =
      (Rejected NotInitialized, example_state\<lparr>db := None\<rparr>)"
    by (simp add: loadFromIndexedDB_def example_state_def)
  show ?thesis
    using processSyncQueue_read_fails [OF on(1) l1] processSyncQueue_read_fails [OF on(2) l2]
    by (simp add: example_state_def)
qed

section \<open>Draining an empty queue\<close>

text \<open>
  C3, as the code has it. When the manager is online and the read of the queue succeeds
  with no entry, the pass returns at the \<^verbatim>\<open>return\<close> that follows the read: it
  resolves, dispatches no event, and leaves \<^verbatim>\<open>lastSyncTime\<close> as it was, in memory and
  in \<^verbatim>\<open>localStorage\<close>; the queue is not touched and no delivery is attempted.
\<close>

theorem processSyncQueue_empty_queue:
  assumes "isOnline s" and "loadFromIndexedDB pendingSyncStore s = (Resolved [], s')"
  shows "processSyncQueue s = (Resolved (), s') \<and>
         events s' = events s \<and> lastSyncTime s' = lastSyncTime s \<and>
         stored_lastSyncTime s' = stored_lastSyncTime s \<and> db s' = db s \<and> net s' = net s \<and>
         clock s' = clock s"
  using assms loadFromIndexedDB_frame [OF assms(2)]
  by (simp add: processSyncQueue_def)

text \<open>
  The claim as written has \<^verbatim>\<open>lastSyncTime\<close> updated by such a pass. On the state
  \<open>idle_state\<close> (online, empty queue, clock at 1000, never synced) it is still unset
  after the pass.
\<close>

theorem processSyncQueue_empty_queue_witness:
  "processSyncQueue idle_state = (Resolved (), idle_state) \<and>
   events idle_state = [] \<and> lastSyncTime idle_state = None"
proof -
  have on: "isOnline idle_state" by (simp add: idle_state_def example_state_def)
  show ?thesis
    using processSyncQueue_empty_queue [OF on idle_state_load]
    by (simp add: idle_state_def example_state_def)
qed

theorem processSyncQueue_empty_queue_counterexample:
  "isOnline idle_state \<and>
   loadFromIndexedDB pendingSyncStore idle_state = (Resolved [], idle_state) \<and>
   clock (snd (processSyncQueue idle_state)) = 1000 \<and>
   lastSyncTime (snd (processSyncQueue idle_state)) = None \<and>
   lastSyncTime (snd (processSyncQueue idle_state)) \<noteq> Some (clock (snd (processSyncQueue idle_state)))"
proof -
  have on: "isOnline idle_state" by (simp add: idle_state_def example_state_def)
  have "processSyncQueue idle_state = (Resolved (), idle_state)"
    using on idle_state_load by (simp add: processSyncQueue_def)
  with on idle_state_load show ?thesis
    by (simp add: idle_state_def example_state_def)
qed

section \<open>Restoring a snapshot without data\<close>

text \<open>
  C4. A snapshot that has no \<^verbatim>\<open>data\<close> section is refused with the error
  \<^verbatim>\<open>Invalid backup format\<close> before anything is cleared or written: the state after
  is the state before.
\<close>

theorem restoreFromBackup_no_data:
  "data b = None \<Longrightarrow> restoreFromBackup b s = (Rejected InvalidFormat, s)"
  by (simp add: restoreFromBackup_def)

theorem restoreFromBackup_no_data_witness:
  "restoreFromBackup \<lparr>version = None, backup_timestamp = None, data = None\<rparr> example_state =
     (Rejected InvalidFormat, example_state)"
  using restoreFromBackup_no_data
    [of "\<lparr>version = None, backup_timestamp = None, data = None\<rparr>" example_state]
  by simp

section \<open>Forced synchronisation\<close>

text \<open>
  C8. \<^verbatim>\<open>forceSyncNow\<close> is rejected exactly when the manager is offline, the error is
  then \<^verbatim>\<open>Cannot sync while offline\<close> and the state is unchanged; when the manager is
  online the call ends as the drain pass it awaits does, in the same state.
\<close>

theorem forceSyncNow_offline_iff:
  "(fst (forceSyncNow s) = Rejected OfflineError) = (\<not> isOnline s) \<and>
   (\<exists>e. fst (forceSyncNow s) = Rejected e) = (\<not> isOnline s) \<and>
   (if isOnline s then forceSyncNow s = processSyncQueue s
    else forceSyncNow s = (Rejected OfflineError, s))"
proof (cases "isOnline s")
  case False
  then show ?thesis by (simp add: forceSyncNow_def)
next
  case True
  obtain s' where "processSyncQueue s = (Resolved (), s')"
    using processSyncQueue_resolves [of s] by (cases "processSyncQueue s") auto
  with True show ?thesis by (simp add: forceSyncNow_def)
qed

theorem forceSyncNow_offline_iff_witness:
  "forceSyncNow (example_state\<lparr>isOnline := False\<rparr>) = (Rejected OfflineError, example_state\<lparr>isOnline := False\<rparr>) \<and>
   forceSyncNow example_state = processSyncQueue example_state"
  using forceSyncNow_offline_iff [of "example_state\<lparr>isOnline := False\<rparr>"]
    forceSyncNow_offline_iff [of example_state]
  by (simp add: example_state_def)

section \<open>The sync status\<close>

text \<open>
  C10. \<^verbatim>\<open>getSyncStatus\<close> always resolves. When the read of the queue succeeds, the
  snapshot counts the queued operations, \<^verbatim>\<open>hasPendingSync\<close> holds exactly when there
  is one, and the last sync time and the online flag are the manager's; when the read is
  rejected, the snapshot is the default one with the manager's online flag.
\<close>

theorem getSyncStatus_never_raises:
  "(\<forall>pendingItems s'. loadFromIndexedDB pendingSyncStore s = (Resolved pendingItems, s') \<longrightarrow>
      getSyncStatus s =
        (Resolved \<lparr>hasPendingSync = (0 < length pendingItems), pendingCount = length pendingItems,
                   status_lastSyncTime = lastSyncTime s, status_isOnline = isOnline s\<rparr>, s')) \<and>
   (\<forall>e s'. loadFromIndexedDB pendingSyncStore s = (Rejected e, s') \<longrightarrow>
      getSyncStatus s =
        (Resolved \<lparr>hasPendingSync = False, pendingCount = 0,
                   status_lastSyncTime = None, status_isOnline = isOnline s\<rparr>, s')) \<and>
   (\<exists>status. fst (getSyncStatus s) = Resolved status)"
proof -
  obtain r s1 where ld: "loadFromIndexedDB pendingSyncStore s = (r, s1)"
    by (cases "loadFromIndexedDB pendingSyncStore s")
  from loadFromIndexedDB_frame [OF ld] ld show ?thesis
    by (cases r) (simp_all add: getSyncStatus_def)
qed

theorem getSyncStatus_never_raises_witness:
  "getSyncStatus example_state =
     (Resolved \<lparr>hasPendingSync = True, pendingCount = 2, status_lastSyncTime = None,
                status_isOnline = True\<rparr>, example_state) \<and>
   getSyncStatus (example_state\<lparr>io := [Some ''UnknownError'']\<rparr>) =
     (Resolved \<lparr>hasPendingSync = False, pendingCount = 0, status_lastSyncTime = None,
                status_isOnline = True\<rparr>, example_state)"
proof -
  have l1: "loadFromIndexedDB pendingSyncStore example_state = (Resolved [item_a, item_b], example_state)"
    by (simp add: loadFromIndexedDB_def request_def example_state_def example_db_def
        pendingSyncStore_def)
  have l2: "loadFromIndexedDB pendingSyncStore (example_state\<lparr>io := [Some ''UnknownError'']\<rparr>) =
      (Rejected (StoreError ''UnknownError''), example_state)"
    by (simp add: loadFromIndexedDB_def request_def example_state_def)
  from getSyncStatus_never_raises [of example_state] l1
  have a: "getSyncStatus example_state =
     (Resolved \<lparr>hasPendingSync = True, pendingCount = 2, status_lastSyncTime = None,
                status_isOnline = True\<rparr>, example_state)"
    by (simp add: example_state_def)
  from getSyncStatus_never_raises [of "example_state\<lparr>io := [Some ''UnknownError'']\<rparr>"] l2
  have b: "getSyncStatus (example_state\<lparr>io := [Some ''UnknownError'']\<rparr>) =
     (Resolved \<lparr>hasPendingSync = False, pendingCount = 0, status_lastSyncTime = None,
                status_isOnline = True\<rparr>, example_state)"
    by (simp add: example_state_def)
  from a b show ?thesis by simp
qed

section \<open>Removing a tag\<close>

lemma removeTag_fields:
  "app_tags (removeTag n a) = filter (\<lambda>t. t \<noteq> n) (app_tags a)"
  "app_tasks (removeTag n a) = map (\<lambda>t. if tag t = n then t\<lparr>tag := []\<rparr> else t) (app_tasks a)"
  by (simp_all add: removeTag_def saveState_def showToast_def Let_def)

text \<open>
  C9. \<^verbatim>\<open>removeTag\<close> takes the name out of the tags and keeps the other tags; the task
  list keeps its length and order, a task whose tag is the removed name is the same task
  with the empty tag, and every other task is unchanged.
\<close>

theorem removeTag_clears_references:
  "app_tags (removeTag n a) = filter (\<lambda>t. t \<noteq> n) (app_tags a) \<and>
   set (app_tags (removeTag n a)) = set (app_tags a) - {n} \<and>
   length (app_tasks (removeTag n a)) = length (app_tasks a) \<and>
   (\<forall>i < length (app_tasks a).
      app_tasks (removeTag n a) ! i =
        (if tag (app_tasks a ! i) = n then (app_tasks a ! i)\<lparr>tag := []\<rparr> else app_tasks a ! i) \<and>
      task_id (app_tasks (removeTag n a) ! i) = task_id (app_tasks a ! i) \<and>
      title (app_tasks (removeTag n a) ! i) = title (app_tasks a ! i) \<and>
      due (app_tasks (removeTag n a) ! i) = due (app_tasks a ! i) \<and>
      task_done (app_tasks (removeTag n a) ! i) = task_done (app_tasks a ! i) \<and>
      createdAt (app_tasks (removeTag n a) ! i) = createdAt (app_tasks a ! i) \<and>
      updatedAt (app_tasks (removeTag n a) ! i) = updatedAt (app_tasks a ! i) \<and>
      synced (app_tasks (removeTag n a) ! i) = synced (app_tasks a ! i) \<and>
      tag (app_tasks (removeTag n a) ! i) = (if tag (app_tasks a ! i) = n then [] else tag (app_tasks a ! i)))"
  by (auto simp: removeTag_fields)

theorem removeTag_clears_references_witness:
  "app_tags (removeTag ''home'' example_app) = [''work''] \<and>
   length (app_tasks (removeTag ''home'' example_app)) = 2 \<and>
   app_tasks (removeTag ''home'' example_app) ! 0 = task_a\<lparr>tag := []\<rparr> \<and>
   app_tasks (removeTag ''home'' example_app) ! 1 = task_b"
proof -
  have len: "length (app_tasks example_app) = 2" and i0: "(0::nat) < 2" and i1: "(1::nat) < 2"
    by (simp_all add: example_app_def)
  have t: "app_tasks example_app ! 0 = task_a" "app_tasks example_app ! 1 = task_b"
    "tag task_a = ''home''" "tag task_b \<noteq> ''home''" "app_tags example_app = [''home'', ''work'']"
    by (simp_all add: example_app_def task_a_def task_b_def)
  from removeTag_clears_references [of "''home''" example_app] len i0 i1 t
  show ?thesis by simp
qed

section \<open>The retry policy\<close>




section \<open>A drain pass over a queue that is not empty\<close>

lemma processItems_prefix:
  "db s \<noteq> None \<Longrightarrow> set (take (length items) (io s)) \<subseteq> {None} \<Longrightarrow>
   db (foldl (\<lambda>t item. snd (processItem item t)) s items) \<noteq> None \<and>
   io (foldl (\<lambda>t item. snd (processItem item t)) s items) = drop (length items) (io s)"
proof (induction items arbitrary: s)
  case Nil
  then show ?case by simp
next
  case (Cons item rest)
  from Cons.prems obtain d where d: "db s = Some d" by auto
  from Cons.prems have r: "fst (request s) = None"
    by (intro request_fst_take [of "length rest"]) simp
  note st = processItem_step [OF d r, of item]
  from Cons.prems have "set (take (length rest) (tl (io s))) \<subseteq> {None}"
    by (intro take_tl_subset) simp
  with st have "db (foldl (\<lambda>t item. snd (processItem item t)) (snd (processItem item s)) rest) \<noteq> None \<and>
      io (foldl (\<lambda>t item. snd (processItem item t)) (snd (processItem item s)) rest) =
        drop (length rest) (io (snd (processItem item s)))"
    by (intro Cons.IH) simp_all
  with st show ?case by (simp add: drop_Suc)
qed

lemma request_fst_drop:
  "set (take n (io s1)) \<subseteq> {None} \<Longrightarrow> i < n \<Longrightarrow> io t = drop i (io s1) \<Longrightarrow> fst (request t) = None"
proof (cases "i < length (io s1)")
  case True
  assume a: "set (take n (io s1)) \<subseteq> {None}" and i: "i < n" and t: "io t = drop i (io s1)"
  from True i have "io s1 ! i \<in> set (take n (io s1))"
    by (metis in_set_conv_nth length_take min_less_iff_conj nth_take)
  with a have "io s1 ! i = None" by auto
  moreover from True t have "io t = io s1 ! i # drop (Suc i) (io s1)"
    by (simp add: Cons_nth_drop_Suc)
  ultimately show ?thesis by (simp add: request_def)
next
  case False
  assume "io t = drop i (io s1)"
  with False show ?thesis by (simp add: request_def)
qed

lemma processItem_cases:
  assumes "db t = Some d" and "fst (request t) = None"
  shows "case syncSingleItem item t of
           (Resolved u, t') \<Rightarrow>
             processItem item t =
               (Resolved (), t'\<lparr>io := tl (io t'),
                  db := Some (d\<lparr>pendingSync := delete item_id (item_id item) (pendingSync d)\<rparr>)\<rparr>)
         | (Rejected e, t') \<Rightarrow>
             processItem item t = handleSyncFailure item t' \<and>
             fst (handleSyncFailure item t') = Resolved ()
         | (Pending, t') \<Rightarrow> False"
proof (cases "syncSingleItem item t")
  case (Pair r t')
  note fr = syncSingleItem_frame [OF Pair]
  from fr assms have d1: "db t' = Some d" and r1: "fst (request t') = None"
    by (simp_all add: request_eq)
  show ?thesis
  proof (cases r)
    case (Resolved u)
    with Pair d1 r1 show ?thesis
      by (simp add: processItem_delivered deleteFromIndexedDB_eq pendingSyncStore_def)
  next
    case (Rejected e)
    with Pair d1 r1 show ?thesis
      by (simp add: processItem_failed handleSyncFailure_eq)
  next
    case Pending
    with fr show ?thesis by simp
  qed
qed

text \<open>
  C2, as the code has it. Take a drain pass that is online, reads a non-empty queue, in
  which no request to the store issued for an entry fails and the call of
  \<^verbatim>\<open>localStorage.setItem\<close> that stores the last sync time returns, whatever the
  deliveries do. The pass resolves in the state reached by running the body of the loop on the
  entries one after the other in the order of the read, each in the state the one
  before it left; then \<^verbatim>\<open>lastSyncTime\<close> is the time at the end of the loop, in memory
  and in \<^verbatim>\<open>localStorage\<close>, and the one event added has \<^verbatim>\<open>success = true\<close>. For each
  entry: when its delivery succeeds, it is deleted from the queue in the state the next
  entry starts from; when its delivery fails, the body is the retry policy, which
  resolves, so the loop goes on.
\<close>

theorem processSyncQueue_drains_in_order:
  assumes "isOnline s"
    and "loadFromIndexedDB pendingSyncStore s = (Resolved pendingItems, s1)"
    and "pendingItems \<noteq> []"
    and "set (take (length pendingItems) (io s1)) \<subseteq> {None}"
    and "fst (setItem s) = None"
  shows "(let s2 = foldl (\<lambda>t item. snd (processItem item t)) s1 pendingItems in
          processSyncQueue s =
            (Resolved (),
             s2\<lparr>lastSyncTime := Some (clock s2), stored_lastSyncTime := Some (clock s2),
                storage := tl (storage s),
                events := events s @
                  [\<lparr>success = True, error_message = None, event_timestamp = clock s2\<rparr>]\<rparr>)) \<and>
         (\<forall>i < length pendingItems.
            let t = foldl (\<lambda>t item. snd (processItem item t)) s1 (take i pendingItems);
                item = pendingItems ! i
            in case syncSingleItem item t of
                 (Resolved u, t') \<Rightarrow>
                   processItem item t =
                     (Resolved (), t'\<lparr>io := tl (io t'),
                        db := map_option
                          (\<lambda>d. d\<lparr>pendingSync := delete item_id (item_id item) (pendingSync d)\<rparr>)
                          (db t')\<rparr>)
               | (Rejected e, t') \<Rightarrow>
                   processItem item t = handleSyncFailure item t' \<and>
                   fst (handleSyncFailure item t') = Resolved ()
               | (Pending, t') \<Rightarrow> False)"
proof -
  note fr = loadFromIndexedDB_frame [OF assms(2)]
  from assms(2) have open1: "db s1 \<noteq> None"
    using fr by (auto simp: loadFromIndexedDB_def split: option.splits)
  have run: "processItems pendingItems s1 =
      (Resolved (), foldl (\<lambda>t item. snd (processItem item t)) s1 pendingItems)"
    using open1 assms(4) by (rule processItems_fold)
  have ev: "events (foldl (\<lambda>t item. snd (processItem item t)) s1 pendingItems) = events s"
    and st: "storage (foldl (\<lambda>t item. snd (processItem item t)) s1 pendingItems) = storage s"
    using processItems_frame [OF open1 assms(4)] fr by simp_all
  from assms(5) st
  have ok: "fst (setItem (foldl (\<lambda>t item. snd (processItem item t)) s1 pendingItems)) = None"
    by (simp add: setItem_eq)
  have first: "let s2 = foldl (\<lambda>t item. snd (processItem item t)) s1 pendingItems in
          processSyncQueue s =
            (Resolved (),
             s2\<lparr>lastSyncTime := Some (clock s2), stored_lastSyncTime := Some (clock s2),
                storage := tl (storage s),
                events := events s @
                  [\<lparr>success = True, error_message = None, event_timestamp = clock s2\<rparr>]\<rparr>)"
    using assms(1,2,3) run ev st ok
    by (simp add: processSyncQueue_def Let_def notifySyncComplete_def updateLastSyncTime_eq)
  have second: "\<forall>i < length pendingItems.
            let t = foldl (\<lambda>t item. snd (processItem item t)) s1 (take i pendingItems);
                item = pendingItems ! i
            in case syncSingleItem item t of
                 (Resolved u, t') \<Rightarrow>
                   processItem item t =
                     (Resolved (), t'\<lparr>io := tl (io t'),
                        db := map_option
                          (\<lambda>d. d\<lparr>pendingSync := delete item_id (item_id item) (pendingSync d)\<rparr>)
                          (db t')\<rparr>)
               | (Rejected e, t') \<Rightarrow>
                   processItem item t = handleSyncFailure item t' \<and>
                   fst (handleSyncFailure item t') = Resolved ()
               | (Pending, t') \<Rightarrow> False"
  proof (intro allI impI)
    fix i assume i: "i < length pendingItems"
    define t where "t = foldl (\<lambda>t item. snd (processItem item t)) s1 (take i pendingItems)"
    from i have "set (take i (io s1)) \<subseteq> set (take (length pendingItems) (io s1))"
      by (intro set_take_subset_set_take) simp
    with i assms(4) have "set (take (length (take i pendingItems)) (io s1)) \<subseteq> {None}"
      by (simp add: min_def)
    from processItems_prefix [OF open1 this] i
    have tdb: "db t \<noteq> None" and tio: "io t = drop i (io s1)"
      by (simp_all add: t_def min_def)
    then obtain d where d: "db t = Some d" by auto
    have r: "fst (request t) = None"
      using assms(4) i tio by (rule request_fst_drop)
    obtain res t' where ssi: "syncSingleItem (pendingItems ! i) t = (res, t')"
      by (cases "syncSingleItem (pendingItems ! i) t")
    from syncSingleItem_frame [OF ssi] d have "db t' = Some d" by simp
    with processItem_cases [OF d r, of "pendingItems ! i"] ssi
    show "let t = foldl (\<lambda>t item. snd (processItem item t)) s1 (take i pendingItems);
                item = pendingItems ! i
            in case syncSingleItem item t of
                 (Resolved u, t') \<Rightarrow>
                   processItem item t =
                     (Resolved (), t'\<lparr>io := tl (io t'),
                        db := map_option
                          (\<lambda>d. d\<lparr>pendingSync := delete item_id (item_id item) (pendingSync d)\<rparr>)
                          (db t')\<rparr>)
               | (Rejected e, t') \<Rightarrow>
                   processItem item t = handleSyncFailure item t' \<and>
                   fst (handleSyncFailure item t') = Resolved ()
               | (Pending, t') \<Rightarrow> False"
      unfolding Let_def t_def [symmetric] by (cases res) simp_all
  qed
  from first second show ?thesis by blast
qed

lemma example_state_load:
  "loadFromIndexedDB pendingSyncStore example_state = (Resolved [item_a, item_b], example_state)"
  by (simp add: loadFromIndexedDB_def request_def example_state_def example_db_def
      pendingSyncStore_def)

theorem processSyncQueue_drains_in_order_witness:
  "processSyncQueue example_state =
     (Resolved (),
      example_state\<lparr>db := Some (example_db\<lparr>pendingSync := []\<rparr>), clock := 2200, net := [],
        lastSyncTime := Some 2200, stored_lastSyncTime := Some 2200,
        events := [\<lparr>success = True, error_message = None, event_timestamp = 2200\<rparr>]\<rparr>)"
proof -
  have on: "isOnline example_state" by (simp add: example_state_def)
  have ne: "[item_a, item_b] \<noteq> []" by simp
  have ok: "set (take (length [item_a, item_b]) (io example_state)) \<subseteq> {None}"
    by (simp add: example_state_def)
  have a: "processItem item_a example_state =
      (Resolved (), example_state\<lparr>db := Some (example_db\<lparr>pendingSync := [item_b]\<rparr>),
         clock := 1500, net := [(700, False)]\<rparr>)"
    by (simp add: processItem_def syncSingleItem_def deleteFromIndexedDB_def request_def
        pendingSyncStore_def delete_def example_state_def example_db_def item_a_def item_b_def)
  have b: "processItem item_b (example_state\<lparr>db := Some (example_db\<lparr>pendingSync := [item_b]\<rparr>),
         clock := 1500, net := [(700, False)]\<rparr>) =
      (Resolved (), example_state\<lparr>db := Some (example_db\<lparr>pendingSync := []\<rparr>),
         clock := 2200, net := []\<rparr>)"
    by (simp add: processItem_def syncSingleItem_def handleSyncFailure_def Let_def
        deleteFromIndexedDB_def request_def pendingSyncStore_def delete_def
        example_state_def example_db_def item_b_def)
  have wr: "fst (setItem example_state) = None"
    by (simp add: setItem_def example_state_def)
  from processSyncQueue_drains_in_order [OF on example_state_load ne ok wr]
  have "processSyncQueue example_state =
      (Resolved (),
       (example_state\<lparr>db := Some (example_db\<lparr>pendingSync := []\<rparr>), clock := 2200, net := []\<rparr>)
         \<lparr>lastSyncTime := Some 2200, stored_lastSyncTime := Some 2200,
          events := events example_state @
            [\<lparr>success = True, error_message = None, event_timestamp = 2200\<rparr>]\<rparr>)"
    by (simp add: Let_def a b) (simp add: example_state_def)
  then show ?thesis by (simp add: example_state_def)
qed

theorem processSyncQueue_drains_in_order_counterexample:
  "isOnline failing_state \<and>
   loadFromIndexedDB pendingSyncStore failing_state =
     (Resolved [item_a, item_b], failing_state\<lparr>io := [Some ''QuotaExceededError'']\<rparr>) \<and>
   syncSingleItem item_a (failing_state\<lparr>io := [Some ''QuotaExceededError'']\<rparr>) =
     (Rejected SimulatedSyncFailure,
      failing_state\<lparr>io := [Some ''QuotaExceededError''], clock := 1500, net := [(700, True)]\<rparr>) \<and>
   processSyncQueue failing_state =
     (Resolved (),
      failing_state\<lparr>io := [], clock := 1500, net := [(700, True)],
        events := [\<lparr>success = False, error_message = Some ''QuotaExceededError'',
                    event_timestamp = 1500\<rparr>]\<rparr>) \<and>
   lastSyncTime (snd (processSyncQueue failing_state)) = None"
  by (simp add: processSyncQueue_def loadFromIndexedDB_def processItem_def syncSingleItem_def
      handleSyncFailure_def Let_def saveToIndexedDB_def deleteFromIndexedDB_def request_def
      pendingSyncStore_def notifySyncComplete_def failing_state_def example_state_def
      example_db_def item_a_def item_b_def)

text \<open>
  The other way out of the outer \<^verbatim>\<open>try\<close>: on \<open>example_state\<close> with a
  \<^verbatim>\<open>localStorage.setItem\<close> that throws, both entries are processed and the queue is
  empty, the field \<^verbatim>\<open>lastSyncTime\<close> holds the new time, \<^verbatim>\<open>localStorage\<close> does not,
  and the one event has \<^verbatim>\<open>success = false\<close>.
\<close>

lemma processSyncQueue_setItem_throws_example:
  "processSyncQueue (example_state\<lparr>storage := [Some ''QuotaExceededError'']\<rparr>) =
     (Resolved (),
      example_state\<lparr>db := Some (example_db\<lparr>pendingSync := []\<rparr>), clock := 2200, net := [],
        lastSyncTime := Some 2200,
        events := [\<lparr>success = False, error_message = Some ''QuotaExceededError'',
                    event_timestamp = 2200\<rparr>]\<rparr>)"
  by (simp add: processSyncQueue_def loadFromIndexedDB_def processItem_def syncSingleItem_def
      handleSyncFailure_def Let_def saveToIndexedDB_def deleteFromIndexedDB_def request_def
      pendingSyncStore_def notifySyncComplete_def updateLastSyncTime_def setItem_def delete_def
      example_state_def example_db_def item_a_def item_b_def)

section \<open>A backup followed by a restore\<close>

lemma clearStore_resolved:
  "clearStore store s = (Resolved u, s') \<Longrightarrow> db s' \<noteq> None"
  by (auto simp: clearStore_def request_def split: option.splits list.splits)

lemma restoreFromBackup_never_settles:
  assumes "data b = Some d" and "backup_tasks d = Some (x # xs)"
    and "clearAllData s = (Resolved u, s1)"
  shows "restoreFromBackup b s = (Pending, bulkSave tasksStore (x # xs) s1)"
proof -
  obtain r1 t1 where c1: "clearStore tasksStore s = (r1, t1)" by (cases "clearStore tasksStore s")
  obtain r2 t2 where c2: "clearStore tagsStore t1 = (r2, t2)" by (cases "clearStore tagsStore t1")
  obtain r3 t3 where c3: "clearStore metadataStore t2 = (r3, t3)"
    by (cases "clearStore metadataStore t2")
  from assms(3) c1 c2 c3 have "clearStore pendingSyncStore t3 = (Resolved u, s1)"
    by (cases r1; cases r2; cases r3) (simp_all add: clearAllData_def)
  then have "db s1 \<noteq> None" by (rule clearStore_resolved)
  then obtain d1 where "db s1 = Some d1" by auto
  with assms show ?thesis
    by (simp add: restoreFromBackup_def restoreSection_def saveToIndexedDB_array_def)
qed

text \<open>
  C5, on the code. \<^verbatim>\<open>createBackup\<close> on \<open>example_state\<close> (one task, one tag, no
  failing request) resolves with the snapshot of the stated shape and leaves the state as
  it was. \<^verbatim>\<open>restoreFromBackup\<close> of that snapshot on that state does not give the
  stores back: it clears them, writes the task, and then awaits a promise that is never
  settled, so it returns nothing, the tag of the snapshot is never written, and the copy
  in \<^verbatim>\<open>localStorage\<close> is never made.
\<close>

theorem createBackup_restoreFromBackup_example:
  "createBackup example_state = (Resolved example_backup, example_state) \<and>
   restoreFromBackup example_backup example_state =
     (Pending,
      example_state\<lparr>db := Some \<lparr>tasks = [task_a], tags = [], metadata = [], pendingSync = []\<rparr>\<rparr>) \<and>
   db example_state =
     Some \<lparr>tasks = [task_a], tags = [tag_a], metadata = [], pendingSync = [item_a, item_b]\<rparr>"
  by (simp add: createBackup_def restoreFromBackup_def clearAllData_def clearStore_def
      restoreSection_def saveToIndexedDB_array_def saveToIndexedDB_def loadFromIndexedDB_def
      request_def tasksStore_def tagsStore_def metadataStore_def pendingSyncStore_def
      example_backup_def example_state_def example_db_def)

end
